theory Spec2Isabelle
  imports Complex_Main
begin

section \<open>Python strings\<close>

text \<open>
  A Python \<open>str\<close> is modelled as a \<open>string\<close>: one \<open>char\<close> per code point, so the
  model ranges over the texts whose code points lie in U+0000 .. U+00FF. The character
  classes below are the ones CPython assigns to these code points.
\<close>

definition code_point :: "char \<Rightarrow> nat" where
  "code_point c = of_char c"

definition isspace :: "char \<Rightarrow> bool" where
  \<comment> \<open>\<open>str.isspace\<close>, also the class \<open>\s\<close> of \<open>re\<close> on a \<open>str\<close> pattern\<close>
  "isspace c = (let n = code_point c in
     (9 \<le> n \<and> n \<le> 13) \<or> (28 \<le> n \<and> n \<le> 32) \<or> n = 133 \<or> n = 160)"

definition isdigit :: "char \<Rightarrow> bool" where
  "isdigit c = (let n = code_point c in 48 \<le> n \<and> n \<le> 57)"

definition isupper_ascii :: "char \<Rightarrow> bool" where
  "isupper_ascii c = (let n = code_point c in 65 \<le> n \<and> n \<le> 90)"

definition isword :: "char \<Rightarrow> bool" where
  \<comment> \<open>the class \<open>\w\<close> of \<open>re\<close>: alphanumeric or underscore\<close>
  "isword c = (let n = code_point c in
     (48 \<le> n \<and> n \<le> 57) \<or> (65 \<le> n \<and> n \<le> 90) \<or> n = 95 \<or> (97 \<le> n \<and> n \<le> 122) \<or>
     n = 170 \<or> n = 178 \<or> n = 179 \<or> n = 181 \<or> n = 185 \<or> n = 186 \<or>
     (188 \<le> n \<and> n \<le> 190) \<or> (192 \<le> n \<and> n \<le> 214) \<or> (216 \<le> n \<and> n \<le> 246) \<or>
     (248 \<le> n \<and> n \<le> 255))"

definition lower_char :: "char \<Rightarrow> char" where
  "lower_char c = (let n = code_point c in
     if (65 \<le> n \<and> n \<le> 90) \<or> (192 \<le> n \<and> n \<le> 214) \<or> (216 \<le> n \<and> n \<le> 222)
     then char_of (n + 32) else c)"

definition upper_point :: "char \<Rightarrow> nat" where
  \<comment> \<open>the code point of the upper-case form; it leaves the range for two characters\<close>
  "upper_point c = (let n = code_point c in
     if (97 \<le> n \<and> n \<le> 122) \<or> (224 \<le> n \<and> n \<le> 246) \<or> (248 \<le> n \<and> n \<le> 254)
     then n - 32 else if n = 255 then 376 else if n = 181 then 924 else n)"

definition str_lower :: "string \<Rightarrow> string" where
  "str_lower s = map lower_char s"

definition str_strip :: "string \<Rightarrow> string" where
  "str_strip s = rev (dropWhile isspace (rev (dropWhile isspace s)))"

definition startswith :: "string \<Rightarrow> string \<Rightarrow> bool" where
  "startswith s p = (take (length p) s = p)"

fun has_sub :: "string \<Rightarrow> string \<Rightarrow> bool" where
  \<comment> \<open>\<open>sub in s\<close>\<close>
  "has_sub [] sub = (sub = [])"
| "has_sub (c # cs) sub = (startswith (c # cs) sub \<or> has_sub cs sub)"

fun find_from :: "nat \<Rightarrow> string \<Rightarrow> string \<Rightarrow> int" where
  "find_from i [] sub = (if sub = [] then int i else - 1)"
| "find_from i (c # cs) sub = (if startswith (c # cs) sub then int i else find_from (Suc i) cs sub)"

definition find_sub :: "string \<Rightarrow> string \<Rightarrow> int" where
  \<comment> \<open>\<open>s.find(sub)\<close>: the first index, or \<open>-1\<close>\<close>
  "find_sub s sub = find_from 0 s sub"

definition slice_from :: "string \<Rightarrow> int \<Rightarrow> string" where
  \<comment> \<open>\<open>s[k:]\<close>; a negative \<open>k\<close> counts from the end\<close>
  "slice_from s k = (if 0 \<le> k then drop (nat k) s else drop (nat (int (length s) + k)) s)"

fun count_sub :: "string \<Rightarrow> string \<Rightarrow> nat" where
  \<comment> \<open>\<open>s.count(sub)\<close> for a non-empty \<open>sub\<close>: occurrences that do not overlap\<close>
  "count_sub [] sub = 0"
| "count_sub (c # cs) sub =
     (if startswith (c # cs) sub then Suc (count_sub (drop (length sub - 1) cs) sub)
      else count_sub cs sub)"

fun split_on :: "string \<Rightarrow> string \<Rightarrow> string \<Rightarrow> string list" where
  \<comment> \<open>\<open>s.split(sep)\<close> for a non-empty \<open>sep\<close>; the second argument is the piece being read\<close>
  "split_on sep cur [] = [cur]"
| "split_on sep cur (c # cs) =
     (if startswith (c # cs) sep then cur # split_on sep [] (drop (length sep - 1) cs)
      else split_on sep (cur @ [c]) cs)"

definition str_split :: "string \<Rightarrow> string \<Rightarrow> string list" where
  "str_split s sep = split_on sep [] s"

fun split_ws :: "string \<Rightarrow> string \<Rightarrow> string list" where
  \<comment> \<open>\<open>s.split()\<close>: the maximal runs of characters that are not whitespace\<close>
  "split_ws cur [] = (if cur = [] then [] else [cur])"
| "split_ws cur (c # cs) =
     (if isspace c then (if cur = [] then split_ws [] cs else cur # split_ws [] cs)
      else split_ws (cur @ [c]) cs)"

definition words :: "string \<Rightarrow> string list" where
  "words s = split_ws [] s"

fun digits_of :: "nat \<Rightarrow> string" where
  "digits_of n = (if n < 10 then [char_of (48 + n)] else digits_of (n div 10) @ [char_of (48 + n mod 10)])"

definition str_join :: "string \<Rightarrow> string list \<Rightarrow> string" where
  \<comment> \<open>\<open>sep.join(xs)\<close>\<close>
  "str_join sep xs = (case xs of [] \<Rightarrow> [] | y # ys \<Rightarrow> y @ concat (map (\<lambda>x. sep @ x) ys))"

section \<open>The JSON decoder\<close>

text \<open>
  \<open>json.loads\<close> on a \<open>str\<close>, as the standard library decodes it with its default
  settings: the JSON grammar, the constants \<open>NaN\<close>, \<open>Infinity\<close> and \<open>-Infinity\<close>, strict
  strings (no control character), and nothing but whitespace after the value. A number
  keeps its lexeme (no scorer reads its value); a string is the list of its code points
  after the escapes are decoded; an object keeps the order of first insertion and the
  last value of a repeated key, as a \<open>dict\<close> does. \<open>None\<close> is the \<open>JSONDecodeError\<close>.
  The interpreter's resource limits (recursion depth, digits of an integer literal) are
  not part of the model.
\<close>

datatype json =
    JNull
  | JBool bool
  | JNumber string
  | JString "nat list"
  | JArray "json list"
  | JObject "(nat list \<times> json) list"

definition hexval :: "char \<Rightarrow> nat option" where
  "hexval c = (let n = code_point c in
     if 48 \<le> n \<and> n \<le> 57 then Some (n - 48)
     else if 97 \<le> n \<and> n \<le> 102 then Some (n - 87)
     else if 65 \<le> n \<and> n \<le> 70 then Some (n - 55)
     else None)"

definition hex4 :: "string \<Rightarrow> nat option" where
  "hex4 s = (case map hexval (take 4 s) of
     [Some a, Some b, Some c, Some d] \<Rightarrow> Some (((a * 16 + b) * 16 + c) * 16 + d)
   | _ \<Rightarrow> None)"

definition escape_char :: "char \<Rightarrow> nat option" where
  "escape_char e =
     (if e = CHR 0x22 then Some 34 else if e = CHR 0x5C then Some 92
      else if e = CHR ''/'' then Some 47 else if e = CHR ''b'' then Some 8
      else if e = CHR ''f'' then Some 12 else if e = CHR ''n'' then Some 10
      else if e = CHR ''r'' then Some 13 else if e = CHR ''t'' then Some 9
      else None)"

definition cons_result :: "nat \<Rightarrow> (nat list \<times> string) option \<Rightarrow> (nat list \<times> string) option" where
  "cons_result x r = map_option (\<lambda>(xs, rest). (x # xs, rest)) r"

fun scanstring :: "string \<Rightarrow> (nat list \<times> string) option" where
  \<comment> \<open>the text after an opening quote: the decoded string and the text after the closing quote\<close>
  "scanstring [] = None"
| "scanstring (c # cs) =
     (if c = CHR 0x22 then Some ([], cs)
      else if c = CHR 0x5C then
        (case cs of
           [] \<Rightarrow> None
         | e # es \<Rightarrow>
             if e = CHR ''u'' then
               (case hex4 es of
                  None \<Rightarrow> None
                | Some u \<Rightarrow>
                    if 0xD800 \<le> u \<and> u \<le> 0xDBFF \<and> startswith (drop 4 es) [CHR 0x5C, CHR ''u'']
                    then (case hex4 (drop 6 es) of
                            None \<Rightarrow> None
                          | Some v \<Rightarrow>
                              if 0xDC00 \<le> v \<and> v \<le> 0xDFFF
                              then cons_result (0x10000 + (u - 0xD800) * 0x400 + (v - 0xDC00))
                                     (scanstring (drop 10 es))
                              else cons_result u (scanstring (drop 4 es)))
                    else cons_result u (scanstring (drop 4 es)))
             else (case escape_char e of
                     None \<Rightarrow> None
                   | Some x \<Rightarrow> cons_result x (scanstring es)))
      else if code_point c < 32 then None
      else cons_result (code_point c) (scanstring cs))"

definition scan_exponent :: "string \<Rightarrow> string \<times> string" where
  "scan_exponent s =
     (case s of
        e # r \<Rightarrow>
          if e = CHR ''e'' \<or> e = CHR ''E'' then
            (let sign = (case r of x # _ \<Rightarrow> if x = CHR ''-'' \<or> x = CHR ''+'' then [x] else [] | [] \<Rightarrow> []);
                 r' = drop (length sign) r;
                 ds = takeWhile isdigit r'
             in if ds = [] then ([], s) else (e # sign @ ds, dropWhile isdigit r'))
          else ([], s)
      | [] \<Rightarrow> ([], s))"

definition scan_fraction :: "string \<Rightarrow> string \<times> string" where
  "scan_fraction s =
     (case s of
        p # f # r \<Rightarrow>
          if p = CHR ''.'' \<and> isdigit f then (p # f # takeWhile isdigit r, dropWhile isdigit r)
          else ([], s)
      | _ \<Rightarrow> ([], s))"

definition scan_number :: "string \<Rightarrow> (string \<times> string) option" where
  \<comment> \<open>the longest number at the start of the text, and the text after it\<close>
  "scan_number s =
     (let sign = (if startswith s ''-'' then ''-'' else []);
          s1 = drop (length sign) s
      in case s1 of
           [] \<Rightarrow> None
         | d # ds \<Rightarrow>
             if \<not> isdigit d then None
             else
               (let ip = (if d = CHR ''0'' then [d] else d # takeWhile isdigit ds);
                    s2 = drop (length ip) s1;
                    (fp, s3) = scan_fraction s2;
                    (ep, s4) = scan_exponent s3
                in Some (sign @ ip @ fp @ ep, s4)))"

datatype token = LBrace | RBrace | LBracket | RBracket | Comma | Colon | Scalar json

definition json_space :: "char \<Rightarrow> bool" where
  "json_space c = (c = CHR '' '' \<or> c = CHR 0x09 \<or> c = CHR 0x0A \<or> c = CHR 0x0D)"

definition cons_token :: "token \<Rightarrow> token list option \<Rightarrow> token list option" where
  "cons_token t r = map_option (\<lambda>ts. t # ts) r"

lemma scanstring_shorter: "scanstring s = Some (x, r) \<Longrightarrow> length r < length s"
proof (induction s arbitrary: x r rule: scanstring.induct)
  case 1
  then show ?case by simp
next
  case (2 c cs)
  show ?case
    using "2.prems" "2.IH"
    by (fastforce simp: cons_result_def split: if_splits list.splits option.splits)
qed

lemma scan_exponent_shorter: "scan_exponent s = (e, r) \<Longrightarrow> length r \<le> length s"
  by (auto simp: scan_exponent_def Let_def length_dropWhile_le le_SucI
      split: list.splits if_splits
      intro: order_trans [OF length_dropWhile_le])

lemma scan_fraction_shorter: "scan_fraction s = (f, r) \<Longrightarrow> length r \<le> length s"
  by (auto simp: scan_fraction_def Let_def length_dropWhile_le le_SucI
      split: list.splits if_splits)

lemma scan_number_shorter: "scan_number s = Some (x, r) \<Longrightarrow> length r < length s"
proof -
  assume a: "scan_number s = Some (x, r)"
  define s1 where "s1 = drop (length (if startswith s ''-'' then ''-'' else [])) s"
  from a obtain d ds where s1: "s1 = d # ds"
    by (cases s1) (auto simp: scan_number_def Let_def s1_def)
  define s2 where "s2 = drop (length (if d = CHR ''0'' then [d] else d # takeWhile isdigit ds)) s1"
  obtain fp s3 where f: "scan_fraction s2 = (fp, s3)" by (cases "scan_fraction s2")
  obtain ep s4 where e: "scan_exponent s3 = (ep, s4)" by (cases "scan_exponent s3")
  have "scan_number s = (if \<not> isdigit d then None else Some ((if startswith s ''-'' then ''-'' else []) @ (if d = CHR ''0'' then [d] else d # takeWhile isdigit ds) @ fp @ ep, s4))"
    unfolding scan_number_def Let_def s1 [unfolded s1_def] list.case
    using f e unfolding s2_def s1 [symmetric] s1_def
    by simp
  with a have "r = s4" by (simp split: if_splits)
  moreover have "length s4 \<le> length s3" using e by (rule scan_exponent_shorter)
  moreover have "length s3 \<le> length s2" using f by (rule scan_fraction_shorter)
  moreover have "length s2 < length s1" by (simp add: s2_def s1)
  moreover have "length s1 \<le> length s" by (simp add: s1_def)
  ultimately show ?thesis by simp
qed

function tokenize :: "string \<Rightarrow> token list option" where
  "tokenize [] = Some []"
| "tokenize (c # cs) =
     (if json_space c then tokenize cs
      else if c = CHR ''{'' then cons_token LBrace (tokenize cs)
      else if c = CHR ''}'' then cons_token RBrace (tokenize cs)
      else if c = CHR ''['' then cons_token LBracket (tokenize cs)
      else if c = CHR '']'' then cons_token RBracket (tokenize cs)
      else if c = CHR '','' then cons_token Comma (tokenize cs)
      else if c = CHR '':'' then cons_token Colon (tokenize cs)
      else if c = CHR 0x22 then
        (case scanstring cs of
           None \<Rightarrow> None
         | Some (str, rest) \<Rightarrow> cons_token (Scalar (JString str)) (tokenize rest))
      else if startswith (c # cs) ''null'' then cons_token (Scalar JNull) (tokenize (drop 3 cs))
      else if startswith (c # cs) ''true'' then cons_token (Scalar (JBool True)) (tokenize (drop 3 cs))
      else if startswith (c # cs) ''false'' then cons_token (Scalar (JBool False)) (tokenize (drop 4 cs))
      else if startswith (c # cs) ''NaN'' then cons_token (Scalar (JNumber ''NaN'')) (tokenize (drop 2 cs))
      else if startswith (c # cs) ''Infinity''
        then cons_token (Scalar (JNumber ''Infinity'')) (tokenize (drop 7 cs))
      else if startswith (c # cs) ''-Infinity''
        then cons_token (Scalar (JNumber ''-Infinity'')) (tokenize (drop 8 cs))
      else
        (case scan_number (c # cs) of
           None \<Rightarrow> None
         | Some (lexeme, rest) \<Rightarrow> cons_token (Scalar (JNumber lexeme)) (tokenize rest)))"
  by pat_completeness auto
termination
  by (relation "measure length")
     (auto dest: scanstring_shorter scan_number_shorter intro: le_imp_less_Suc)

text \<open>
  The tokens are read by a stack machine: a frame per open container, and a mode that
  says which tokens may come next.
\<close>

datatype frame =
    ArrayFrame "json list"
  | ObjectFrame "(nat list \<times> json) list"
  | KeyFrame "nat list"

datatype mode =
    WantValue
  | WantValueOrClose
  | WantKeyOrClose
  | WantKey
  | WantColon
  | AfterValue
  | Finished json

fun dict_set :: "'k \<Rightarrow> 'v \<Rightarrow> ('k \<times> 'v) list \<Rightarrow> ('k \<times> 'v) list" where
  \<comment> \<open>\<open>d[k] = v\<close> on a dictionary kept in insertion order\<close>
  "dict_set k v [] = [(k, v)]"
| "dict_set k v (p # ps) = (if fst p = k then (k, v) # ps else p # dict_set k v ps)"

fun deliver :: "json \<Rightarrow> frame list \<Rightarrow> (mode \<times> frame list) option" where
  \<comment> \<open>a value is complete: it is the result, an array's next item, or a key's value\<close>
  "deliver v [] = Some (Finished v, [])"
| "deliver v (ArrayFrame xs # st) = Some (AfterValue, ArrayFrame (xs @ [v]) # st)"
| "deliver v (KeyFrame k # ObjectFrame kvs # st) = Some (AfterValue, ObjectFrame (dict_set k v kvs) # st)"
| "deliver v _ = None"

fun open_value :: "token \<Rightarrow> frame list \<Rightarrow> (mode \<times> frame list) option" where
  "open_value (Scalar v) st = deliver v st"
| "open_value LBracket st = Some (WantValueOrClose, ArrayFrame [] # st)"
| "open_value LBrace st = Some (WantKeyOrClose, ObjectFrame [] # st)"
| "open_value _ st = None"

fun open_key :: "token \<Rightarrow> frame list \<Rightarrow> (mode \<times> frame list) option" where
  "open_key (Scalar (JString k)) st = Some (WantColon, KeyFrame k # st)"
| "open_key _ st = None"

fun close_frame :: "frame list \<Rightarrow> (mode \<times> frame list) option" where
  "close_frame (ArrayFrame xs # st) = deliver (JArray xs) st"
| "close_frame (ObjectFrame kvs # st) = deliver (JObject kvs) st"
| "close_frame _ = None"

fun step :: "mode \<Rightarrow> frame list \<Rightarrow> token \<Rightarrow> (mode \<times> frame list) option" where
  "step WantValue st t = open_value t st"
| "step WantValueOrClose st t = (if t = RBracket then close_frame st else open_value t st)"
| "step WantKeyOrClose st t = (if t = RBrace then close_frame st else open_key t st)"
| "step WantKey st t = open_key t st"
| "step WantColon st t = (if t = Colon then Some (WantValue, st) else None)"
| "step AfterValue (ArrayFrame xs # st) t =
     (if t = Comma then Some (WantValue, ArrayFrame xs # st)
      else if t = RBracket then close_frame (ArrayFrame xs # st) else None)"
| "step AfterValue (ObjectFrame kvs # st) t =
     (if t = Comma then Some (WantKey, ObjectFrame kvs # st)
      else if t = RBrace then close_frame (ObjectFrame kvs # st) else None)"
| "step AfterValue _ t = None"
| "step (Finished v) st t = None"

fun run :: "mode \<Rightarrow> frame list \<Rightarrow> token list \<Rightarrow> json option" where
  "run m st [] = (case m of Finished v \<Rightarrow> Some v | _ \<Rightarrow> None)"
| "run m st (t # ts) = (case step m st t of None \<Rightarrow> None | Some (m', st') \<Rightarrow> run m' st' ts)"

definition json_loads :: "string \<Rightarrow> json option" where
  "json_loads s = (case tokenize s of None \<Rightarrow> None | Some ts \<Rightarrow> run WantValue [] ts)"


section \<open>Regular expressions\<close>

text \<open>
  The module \<open>re\<close> on \<open>str\<close> patterns, for the part of the pattern language the program
  writes: literals, \<open>.\<close>, \<open>^\<close>, \<open>$\<close>, sets, the classes \<open>\s \d \w\<close> and their complements,
  \<open>\b\<close>, capturing groups, alternation and the greedy repetitions. A pattern is compiled
  when it is used, and a pattern that does not parse raises \<open>re.error\<close> there:
  \<open>PatternError\<close> carries its message and position. \<open>Unsupported\<close> marks a
  construct outside this part; no pattern of the program reaches it.
\<close>

datatype error = PatternError string nat | Unsupported | KeyError string

datatype flag = IGNORECASE | MULTILINE

datatype item = Chr char | CharRange char char | Space | NotSpace | Digit | NotDigit | Word | NotWord

datatype regex =
    Lit char
  | AnyChar
  | CharSet bool "item list"
  | Bol
  | Eol
  | Boundary
  | NotBoundary
  | Epsilon
  | Seq regex regex
  | Alt regex regex
  | Repeat regex nat "nat option"
  | Group nat regex

subsection \<open>Parsing a pattern\<close>

definition BS :: char where
  \<comment> \<open>the backslash\<close>
  "BS = CHR 0x5C"

definition category :: "char \<Rightarrow> item option" where
  "category e =
     (if e = CHR ''s'' then Some Space else if e = CHR ''S'' then Some NotSpace
      else if e = CHR ''d'' then Some Digit else if e = CHR ''D'' then Some NotDigit
      else if e = CHR ''w'' then Some Word else if e = CHR ''W'' then Some NotWord
      else None)"

definition control_escape :: "char \<Rightarrow> char option" where
  "control_escape e =
     (if e = CHR ''a'' then Some (CHR 0x07) else if e = CHR ''b'' then Some (CHR 0x08)
      else if e = CHR ''f'' then Some (CHR 0x0C) else if e = CHR ''n'' then Some (CHR 0x0A)
      else if e = CHR ''r'' then Some (CHR 0x0D) else if e = CHR ''t'' then Some (CHR 0x09)
      else if e = CHR ''v'' then Some (CHR 0x0B) else if e = BS then Some BS
      else None)"

definition ascii_letter :: "char \<Rightarrow> bool" where
  "ascii_letter c = (let n = code_point c in (65 \<le> n \<and> n \<le> 90) \<or> (97 \<le> n \<and> n \<le> 122))"

definition class_escape :: "nat \<Rightarrow> char \<Rightarrow> error + item" where
  \<comment> \<open>an escape inside a set; the position is the one of its backslash\<close>
  "class_escape i e =
     (case control_escape e of
        Some c \<Rightarrow> Inr (Chr c)
      | None \<Rightarrow>
          (case category e of
             Some k \<Rightarrow> Inr k
           | None \<Rightarrow>
               if e \<in> set ''xuUN'' \<or> isdigit e then Inl Unsupported
               else if ascii_letter e then Inl (PatternError (''bad escape '' @ [BS, e]) i)
               else Inr (Chr e)))"

definition escape :: "nat \<Rightarrow> char \<Rightarrow> error + regex" where
  \<comment> \<open>an escape outside a set\<close>
  "escape i e =
     (case category e of
        Some k \<Rightarrow> Inr (CharSet False [k])
      | None \<Rightarrow>
          if e = CHR ''b'' then Inr Boundary
          else if e = CHR ''B'' then Inr NotBoundary
          else if e = CHR ''A'' \<or> e = CHR ''Z'' then Inl Unsupported
          else
            (case control_escape e of
               Some c \<Rightarrow> Inr (Lit c)
             | None \<Rightarrow>
                 if e \<in> set ''xuUN'' \<or> isdigit e then Inl Unsupported
                 else if ascii_letter e then Inl (PatternError (''bad escape '' @ [BS, e]) i)
                 else Inr (Lit e)))"

definition class_atom :: "nat \<Rightarrow> string \<Rightarrow> error + (item \<times> nat)" where
  \<comment> \<open>one member of a set at the start of a non-empty text, and how many characters it
      takes beyond the first\<close>
  "class_atom i s =
     (case s of
        [] \<Rightarrow> Inl (PatternError ''unterminated character set'' i)
      | c # cs \<Rightarrow>
          if c = BS then
            (case cs of
               [] \<Rightarrow> Inl (PatternError ''bad escape (end of pattern)'' i)
             | e # _ \<Rightarrow> (case class_escape i e of Inl err \<Rightarrow> Inl err | Inr a \<Rightarrow> Inr (a, 1)))
          else Inr (Chr c, 0))"

definition bad_range :: "nat \<Rightarrow> string \<Rightarrow> string \<Rightarrow> error" where
  "bad_range i this that = PatternError (''bad character range '' @ this @ ''-'' @ that) i"

fun class_items :: "nat \<Rightarrow> nat \<Rightarrow> item list \<Rightarrow> string \<Rightarrow> error + (item list \<times> nat)" where
  \<comment> \<open>the members of a set up to its closing bracket, and the number of characters read;
      \<open>p\<close> is the position of the opening bracket, \<open>n\<close> the characters read so far\<close>
  "class_items p n acc [] = Inl (PatternError ''unterminated character set'' p)"
| "class_items p n acc (c # cs) =
     (if c = CHR '']'' \<and> acc \<noteq> [] then Inr (rev acc, Suc n)
      else
        (case class_atom (p + n) (c # cs) of
           Inl err \<Rightarrow> Inl err
         | Inr (a, k) \<Rightarrow>
             if startswith (drop k cs) ''-'' then
               (case drop (Suc k) cs of
                  [] \<Rightarrow> Inl (PatternError ''unterminated character set'' p)
                | d # ds \<Rightarrow>
                    if d = CHR '']'' then Inr (rev (Chr (CHR ''-'') # a # acc), n + k + 3)
                    else
                      (case class_atom (p + n + k + 2) (d # ds) of
                         Inl err \<Rightarrow> Inl err
                       | Inr (b, m) \<Rightarrow>
                           (case (a, b) of
                              (Chr lo, Chr hi) \<Rightarrow>
                                if code_point hi < code_point lo
                                then Inl (bad_range (p + n) (take (Suc k) (c # cs)) (take (Suc m) (d # ds)))
                                else class_items p (n + k + m + 3) (CharRange lo hi # acc)
                                       (drop (k + m + 2) cs)
                            | _ \<Rightarrow>
                                Inl (bad_range (p + n) (take (Suc k) (c # cs)) (take (Suc m) (d # ds))))))
             else class_items p (n + k + 1) (a # acc) (drop k cs)))"

definition parse_set :: "nat \<Rightarrow> string \<Rightarrow> error + (regex \<times> nat)" where
  \<comment> \<open>the text after an opening bracket at position \<open>p\<close>\<close>
  "parse_set p s =
     (let neg = startswith s ''^''; k = (if neg then 1 else 0)
      in case class_items p (Suc k) [] (drop k s) of
           Inl err \<Rightarrow> Inl err
         | Inr (items, n) \<Rightarrow> Inr (CharSet neg items, n - 1))"

fun decimal :: "nat \<Rightarrow> string \<Rightarrow> nat" where
  "decimal acc [] = acc"
| "decimal acc (d # ds) = decimal (acc * 10 + (code_point d - 48)) ds"

definition parse_bounds :: "nat \<Rightarrow> string \<Rightarrow> error + (nat \<times> nat option \<times> nat) option" where
  \<comment> \<open>the text after an opening brace: the bounds and the characters read, or \<open>None\<close>
      when the brace is a literal\<close>
  "parse_bounds i s =
     (if startswith s ''}'' then Inr None
      else
        (let lo = takeWhile isdigit s;
             r1 = dropWhile isdigit s;
             comma = startswith r1 '','';
             hi = (if comma then takeWhile isdigit (drop 1 r1) else lo);
             r2 = (if comma then dropWhile isdigit (drop 1 r1) else r1)
         in if \<not> startswith r2 ''}'' then Inr None
            else
              (let mn = (if lo = [] then 0 else decimal 0 lo);
                   mx = (if hi = [] then None else Some (decimal 0 hi))
               in if (case mx of Some h \<Rightarrow> h < mn | None \<Rightarrow> False)
                  then Inl (PatternError ''min repeat greater than max repeat'' (Suc i))
                  else Inr (Some (mn, mx, length s - length r2 + 1)))))"

fun seq_of :: "regex list \<Rightarrow> regex" where
  "seq_of [] = Epsilon"
| "seq_of [r] = r"
| "seq_of (r # rs) = Seq r (seq_of rs)"

fun alt_of :: "regex list \<Rightarrow> regex" where
  "alt_of [] = Epsilon"
| "alt_of [r] = r"
| "alt_of (r # rs) = Alt r (alt_of rs)"

definition close_branch :: "regex list \<Rightarrow> regex list \<Rightarrow> regex" where
  \<comment> \<open>the alternatives read before (last first) and the items of the last one (last first)\<close>
  "close_branch alts cur = alt_of (rev (seq_of (rev cur) # alts))"

definition is_at :: "regex \<Rightarrow> bool" where
  "is_at r = (r = Bol \<or> r = Eol \<or> r = Boundary \<or> r = NotBoundary)"

definition is_repeat :: "regex \<Rightarrow> bool" where
  "is_repeat r = (case r of Repeat _ _ _ \<Rightarrow> True | _ \<Rightarrow> False)"

definition quantify :: "nat \<Rightarrow> nat \<Rightarrow> nat option \<Rightarrow> string \<Rightarrow> regex list \<Rightarrow> error + regex list" where
  \<comment> \<open>a repetition read at position \<open>i\<close>, applied to the last item; \<open>r\<close> is the text after it\<close>
  "quantify i mn mx r cur =
     (case cur of
        [] \<Rightarrow> Inl (PatternError ''nothing to repeat'' i)
      | x # xs \<Rightarrow>
          if is_at x then Inl (PatternError ''nothing to repeat'' i)
          else if is_repeat x then Inl (PatternError ''multiple repeat'' i)
          else if startswith r ''?'' \<or> startswith r ''+'' then Inl Unsupported
          else Inr (Repeat x mn mx # xs))"

type_synonym open_group = "regex list \<times> regex list \<times> nat \<times> nat"

fun parse_items ::
  "open_group list \<Rightarrow> regex list \<Rightarrow> regex list \<Rightarrow> nat \<Rightarrow> nat \<Rightarrow> string \<Rightarrow> error + regex \<times> nat" where
  \<comment> \<open>the open groups (the alternatives and items read before the group, its number and
      the position of its parenthesis), the alternatives and items of the innermost one,
      the number of groups opened, the position, the text\<close>
  "parse_items st alts cur g i [] =
     (case st of
        [] \<Rightarrow> Inr (close_branch alts cur, g)
      | (_, _, _, p) # _ \<Rightarrow> Inl (PatternError ''missing ), unterminated subpattern'' p))"
| "parse_items st alts cur g i (c # cs) =
     (if c = BS then
        (case cs of
           [] \<Rightarrow> Inl (PatternError ''bad escape (end of pattern)'' i)
         | e # es \<Rightarrow>
             (case escape i e of
                Inl err \<Rightarrow> Inl err
              | Inr r \<Rightarrow> parse_items st alts (r # cur) g (i + 2) es))
      else if c = CHR ''['' then
        (case parse_set i cs of
           Inl err \<Rightarrow> Inl err
         | Inr (r, n) \<Rightarrow> parse_items st alts (r # cur) g (i + 1 + n) (drop n cs))
      else if c = CHR ''*'' then
        (case quantify i 0 None cs cur of
           Inl err \<Rightarrow> Inl err
         | Inr cur' \<Rightarrow> parse_items st alts cur' g (i + 1) cs)
      else if c = CHR ''+'' then
        (case quantify i 1 None cs cur of
           Inl err \<Rightarrow> Inl err
         | Inr cur' \<Rightarrow> parse_items st alts cur' g (i + 1) cs)
      else if c = CHR ''?'' then
        (case quantify i 0 (Some 1) cs cur of
           Inl err \<Rightarrow> Inl err
         | Inr cur' \<Rightarrow> parse_items st alts cur' g (i + 1) cs)
      else if c = CHR ''{'' then
        (case parse_bounds i cs of
           Inl err \<Rightarrow> Inl err
         | Inr None \<Rightarrow> parse_items st alts (Lit c # cur) g (i + 1) cs
         | Inr (Some (mn, mx, n)) \<Rightarrow>
             (case quantify i mn mx (drop n cs) cur of
                Inl err \<Rightarrow> Inl err
              | Inr cur' \<Rightarrow> parse_items st alts cur' g (i + 1 + n) (drop n cs)))
      else if c = CHR ''.'' then parse_items st alts (AnyChar # cur) g (i + 1) cs
      else if c = CHR ''^'' then parse_items st alts (Bol # cur) g (i + 1) cs
      else if c = CHR ''$'' then parse_items st alts (Eol # cur) g (i + 1) cs
      else if c = CHR ''|'' then parse_items st (seq_of (rev cur) # alts) [] g (i + 1) cs
      else if c = CHR ''('' then
        (if startswith cs ''?'' then Inl Unsupported
         else parse_items ((alts, cur, Suc g, i) # st) [] [] (Suc g) (i + 1) cs)
      else if c = CHR '')'' then
        (case st of
           [] \<Rightarrow> Inl (PatternError ''unbalanced parenthesis'' i)
         | (alts', cur', k, _) # st' \<Rightarrow>
             parse_items st' alts' (Group k (close_branch alts cur) # cur') g (i + 1) cs)
      else parse_items st alts (Lit c # cur) g (i + 1) cs)"

definition compile :: "string \<Rightarrow> error + regex \<times> nat" where
  \<comment> \<open>\<open>re.compile\<close>: the expression and the number of its groups\<close>
  "compile pattern = parse_items [] [] [] 0 0 pattern"

subsection \<open>Matching\<close>

text \<open>
  A match state is the character before the position (if any), the text from the
  position on, and the texts of the groups closed so far. \<open>ends\<close> lists the states in
  which a match of the expression from a state can end, in the order in which the
  backtracking matcher of \<open>re\<close> tries them; the first one is the match it reports.
\<close>

type_synonym mstate = "char option \<times> string \<times> (nat \<times> string) list"

definition rest_of :: "mstate \<Rightarrow> string" where
  "rest_of st = fst (snd st)"

definition lit_match :: "flag list \<Rightarrow> char \<Rightarrow> char \<Rightarrow> bool" where
  "lit_match fl p c = (if IGNORECASE \<in> set fl then lower_char c = lower_char p else c = p)"

fun item_match :: "flag list \<Rightarrow> item \<Rightarrow> char \<Rightarrow> bool" where
  "item_match fl (Chr p) c = lit_match fl p c"
| "item_match fl (CharRange lo hi) c =
     ((code_point lo \<le> code_point c \<and> code_point c \<le> code_point hi) \<or>
      (IGNORECASE \<in> set fl \<and>
        ((code_point lo \<le> code_point (lower_char c) \<and> code_point (lower_char c) \<le> code_point hi) \<or>
         (code_point lo \<le> upper_point c \<and> upper_point c \<le> code_point hi))))"
| "item_match fl Space c = isspace c"
| "item_match fl NotSpace c = (\<not> isspace c)"
| "item_match fl Digit c = isdigit c"
| "item_match fl NotDigit c = (\<not> isdigit c)"
| "item_match fl Word c = isword c"
| "item_match fl NotWord c = (\<not> isword c)"

definition one_char :: "(char \<Rightarrow> bool) \<Rightarrow> mstate \<Rightarrow> mstate list" where
  "one_char P st =
     (case st of
        (_, c # cs, g) \<Rightarrow> if P c then [(Some c, cs, g)] else []
      | (_, [], _) \<Rightarrow> [])"

definition at_bol :: "flag list \<Rightarrow> mstate \<Rightarrow> bool" where
  "at_bol fl st =
     (case fst st of
        None \<Rightarrow> True
      | Some c \<Rightarrow> MULTILINE \<in> set fl \<and> c = CHR 0x0A)"

definition at_eol :: "flag list \<Rightarrow> mstate \<Rightarrow> bool" where
  "at_eol fl st =
     (case rest_of st of
        [] \<Rightarrow> True
      | c # cs \<Rightarrow> c = CHR 0x0A \<and> (MULTILINE \<in> set fl \<or> cs = []))"

definition at_boundary :: "mstate \<Rightarrow> bool" where
  "at_boundary st =
     ((case fst st of None \<Rightarrow> False | Some c \<Rightarrow> isword c) \<noteq>
      (case rest_of st of [] \<Rightarrow> False | c # _ \<Rightarrow> isword c))"

primrec rounds ::
  "(mstate \<Rightarrow> mstate list) \<Rightarrow> nat \<Rightarrow> nat \<Rightarrow> nat option \<Rightarrow> mstate \<Rightarrow> mstate list" where
  \<comment> \<open>a greedy repetition: one more round first, then stopping here. The second argument
      bounds the rounds by the length of the text (each round that goes on has read a
      character), so the first equation is never reached from \<open>ends\<close>.\<close>
  "rounds f 0 mn mx st = []"
| "rounds f (Suc n) mn mx st =
     (if mx = Some 0 then []
      else concat (map (\<lambda>st'. if length (rest_of st') < length (rest_of st)
                                then rounds f n (mn - 1) (map_option (\<lambda>h. h - 1) mx) st'
                                else [st'])
                       (f st)))
     @ (if mn = 0 then [st] else [])"

primrec ends :: "flag list \<Rightarrow> regex \<Rightarrow> mstate \<Rightarrow> mstate list" where
  "ends fl (Lit p) st = one_char (lit_match fl p) st"
| "ends fl AnyChar st = one_char (\<lambda>c. c \<noteq> CHR 0x0A) st"
| "ends fl (CharSet neg items) st = one_char (\<lambda>c. list_ex (\<lambda>it. item_match fl it c) items \<noteq> neg) st"
| "ends fl Bol st = (if at_bol fl st then [st] else [])"
| "ends fl Eol st = (if at_eol fl st then [st] else [])"
| "ends fl Boundary st = (if at_boundary st then [st] else [])"
| "ends fl NotBoundary st = (if at_boundary st then [] else [st])"
| "ends fl Epsilon st = [st]"
| "ends fl (Seq a b) st = concat (map (ends fl b) (ends fl a st))"
| "ends fl (Alt a b) st = ends fl a st @ ends fl b st"
| "ends fl (Repeat r mn mx) st = rounds (ends fl r) (Suc (length (rest_of st))) mn mx st"
| "ends fl (Group k r) st =
     map (\<lambda>(p, s, g). (p, s, dict_set k (take (length (rest_of st) - length s) (rest_of st)) g))
         (ends fl r st)"

definition match_at :: "flag list \<Rightarrow> regex \<Rightarrow> char option \<Rightarrow> string \<Rightarrow> (string \<times> (nat \<times> string) list) option" where
  \<comment> \<open>the match that starts at a position: its text and its groups\<close>
  "match_at fl r p s =
     (case ends fl r (p, s, []) of
        [] \<Rightarrow> None
      | (_, s', g) # _ \<Rightarrow> Some (take (length s - length s') s, g))"

fun search_from :: "flag list \<Rightarrow> regex \<Rightarrow> char option \<Rightarrow> string \<Rightarrow> bool" where
  "search_from fl r p [] = (match_at fl r p [] \<noteq> None)"
| "search_from fl r p (c # cs) = (match_at fl r p (c # cs) \<noteq> None \<or> search_from fl r (Some c) cs)"

fun find_all ::
  "flag list \<Rightarrow> regex \<Rightarrow> nat \<Rightarrow> char option \<Rightarrow> string \<Rightarrow> (string \<times> (nat \<times> string) list) list" where
  \<comment> \<open>the matches that do not overlap, from left to right; \<open>skip\<close> counts the characters
      still inside the match found last\<close>
  "find_all fl r skip p [] =
     (if skip = 0 then (case match_at fl r p [] of None \<Rightarrow> [] | Some m \<Rightarrow> [m]) else [])"
| "find_all fl r skip p (c # cs) =
     (if 0 < skip then find_all fl r (skip - 1) (Some c) cs
      else
        (case match_at fl r p (c # cs) of
           None \<Rightarrow> find_all fl r 0 (Some c) cs
         | Some (m, g) \<Rightarrow> (m, g) # find_all fl r (length m - 1) (Some c) cs))"

fun split_all :: "flag list \<Rightarrow> regex \<Rightarrow> nat \<Rightarrow> char option \<Rightarrow> string \<Rightarrow> string \<Rightarrow> string list" where
  \<comment> \<open>the pieces between the non-empty matches; \<open>cur\<close> is the piece being read\<close>
  "split_all fl r skip p cur [] = [cur]"
| "split_all fl r skip p cur (c # cs) =
     (if 0 < skip then split_all fl r (skip - 1) (Some c) cur cs
      else
        (case match_at fl r p (c # cs) of
           None \<Rightarrow> split_all fl r 0 (Some c) (cur @ [c]) cs
         | Some (m, g) \<Rightarrow>
             if m = [] then split_all fl r 0 (Some c) (cur @ [c]) cs
             else cur # split_all fl r (length m - 1) (Some c) [] cs))"

definition group_texts :: "nat \<Rightarrow> string \<times> (nat \<times> string) list \<Rightarrow> string list" where
  \<comment> \<open>what \<open>findall\<close> lists for a match: the match, or the texts of the groups (a group
      that took no part is the empty text)\<close>
  "group_texts n m =
     (if n = 0 then [fst m]
      else map (\<lambda>k. case map_of (snd m) k of None \<Rightarrow> [] | Some t \<Rightarrow> t) [1 ..< Suc n])"

subsection \<open>The functions of the module\<close>

definition re_match :: "string \<Rightarrow> flag list \<Rightarrow> string \<Rightarrow> error + bool" where
  \<comment> \<open>\<open>bool(re.match(pattern, s, flags))\<close>: a match at the start of the text\<close>
  "re_match pattern fl s =
     (case compile pattern of
        Inl e \<Rightarrow> Inl e
      | Inr (r, n) \<Rightarrow> Inr (match_at fl r None s \<noteq> None))"

definition re_search :: "string \<Rightarrow> flag list \<Rightarrow> string \<Rightarrow> error + bool" where
  \<comment> \<open>\<open>bool(re.search(pattern, s, flags))\<close>: a match anywhere in the text\<close>
  "re_search pattern fl s =
     (case compile pattern of
        Inl e \<Rightarrow> Inl e
      | Inr (r, n) \<Rightarrow> Inr (search_from fl r None s))"

definition re_findall :: "string \<Rightarrow> flag list \<Rightarrow> string \<Rightarrow> error + string list list" where
  \<comment> \<open>\<open>re.findall(pattern, s, flags)\<close>; an entry is a one-element list where Python has a
      \<open>str\<close>, and the components where it has a tuple\<close>
  "re_findall pattern fl s =
     (case compile pattern of
        Inl e \<Rightarrow> Inl e
      | Inr (r, n) \<Rightarrow> Inr (map (group_texts n) (find_all fl r 0 None s)))"

definition re_split :: "string \<Rightarrow> string \<Rightarrow> error + string list" where
  \<comment> \<open>\<open>re.split(pattern, s)\<close> for a pattern without groups that matches no empty text\<close>
  "re_split pattern s =
     (case compile pattern of
        Inl e \<Rightarrow> Inl e
      | Inr (r, n) \<Rightarrow> Inr (split_all [] r 0 None [] s))"


section \<open>The scoring engine\<close>

text \<open>
  A Python \<open>float\<close> is modelled by the rational number it stands for, and arithmetic on
  floats by exact arithmetic: the model leaves out the rounding error of binary
  floating point. \<open>round(x, 3)\<close> rounds to three decimals, a tie to the even neighbour.
\<close>

definition round_half_even :: "rat \<Rightarrow> int" where
  "round_half_even x =
     (let f = \<lfloor>x\<rfloor>; d = x - of_int f
      in if d < 1 / 2 then f else if 1 / 2 < d then f + 1 else if even f then f else f + 1)"

definition py_round :: "rat \<Rightarrow> nat \<Rightarrow> rat" where
  "py_round x nd = of_int (round_half_even (x * 10 ^ nd)) / 10 ^ nd"

definition raw :: "string \<Rightarrow> string" where
  \<comment> \<open>a raw string literal of the source, with \<open>~\<close> written for its backslashes\<close>
  "raw s = map (\<lambda>c. if c = CHR ''~'' then BS else c) s"

definition and_then :: "error + 'a \<Rightarrow> ('a \<Rightarrow> error + 'b) \<Rightarrow> error + 'b" where
  \<comment> \<open>sequencing: an exception of the first computation leaves the second undone\<close>
  "and_then m f = (case m of Inl e \<Rightarrow> Inl e | Inr x \<Rightarrow> f x)"

definition truths :: "bool list \<Rightarrow> nat" where
  \<comment> \<open>\<open>sum\<close> of a list of booleans\<close>
  "truths bs = length (filter (\<lambda>b. b) bs)"

definition key :: "string \<Rightarrow> nat list" where
  "key s = map code_point s"

definition quoted :: "string \<Rightarrow> string" where
  "quoted s = [CHR 0x27] @ s @ [CHR 0x27]"

definition repr_list :: "string list \<Rightarrow> string" where
  \<comment> \<open>\<open>str\<close> of a list of plain strings\<close>
  "repr_list xs = ''['' @ str_join '', '' (map quoted xs) @ '']''"

datatype FormatType = JSON | MARKDOWN | CODE | TEXT

definition format_value :: "FormatType \<Rightarrow> string" where
  "format_value f = (case f of JSON \<Rightarrow> ''json'' | MARKDOWN \<Rightarrow> ''markdown'' | CODE \<Rightarrow> ''code'' | TEXT \<Rightarrow> ''text'')"

record ScoringResult =
  weighted_score :: rat
  quality_rating :: string
  scores :: "(string \<times> rat) list"
  feedback :: "string list"
  pass_threshold :: bool
  format_detected :: string

definition DIMENSION_WEIGHTS :: "(string \<times> rat) list" where
  "DIMENSION_WEIGHTS =
     [(''completeness'', 30 / 100),
      (''format_compliance'', 20 / 100),
      (''coverage'', 25 / 100),
      (''clarity'', 15 / 100),
      (''validity'', 10 / 100)]"

definition QUALITY_RATINGS :: "(rat \<times> string) list" where
  "QUALITY_RATINGS =
     [(9 / 10, ''Excellent''),
      (8 / 10, ''Very Good''),
      (7 / 10, ''Good''),
      (6 / 10, ''Satisfactory''),
      (5 / 10, ''Needs Improvement''),
      (0, ''Poor'')]"

definition DEFAULT_PASS_THRESHOLD :: rat where
  "DEFAULT_PASS_THRESHOLD = 6 / 10"

subsection \<open>Format detection\<close>

definition code_patterns :: "string list" where
  "code_patterns =
     [raw ''^~s*(def |class |function |import |from |#include |package |func '',
      raw ''^~s*(public |private |protected |void |int |string |var |let |const )'',
      raw ''^~s*<~?php'',
      raw ''^~s*<(!DOCTYPE |html|head|body)'',
      raw ''^~s*(import|export)~s+'']"

definition md_patterns :: "string list" where
  "md_patterns =
     [raw ''^#{1,6}~s+'',
      raw ''^~*~*.*~*~*'',
      raw ''^~[.*~]~(.*~)'',
      raw ''^```'',
      raw ''^[-*+]~s+'',
      raw ''^~d+~.~s+'']"

fun any_match :: "string list \<Rightarrow> flag list \<Rightarrow> string \<Rightarrow> error + bool" where
  \<comment> \<open>the loop over the code patterns: the first pattern that matches ends it\<close>
  "any_match [] fl s = Inr False"
| "any_match (p # ps) fl s =
     and_then (re_match p fl s) (\<lambda>m. if m then Inr True else any_match ps fl s)"

fun count_search :: "string list \<Rightarrow> flag list \<Rightarrow> string \<Rightarrow> error + nat" where
  \<comment> \<open>\<open>sum(1 for p in patterns if re.search(p, s, flags))\<close>\<close>
  "count_search [] fl s = Inr 0"
| "count_search (p # ps) fl s =
     and_then (re_search p fl s) (\<lambda>m.
     and_then (count_search ps fl s) (\<lambda>n. Inr ((if m then 1 else 0) + n)))"

definition detect_format :: "string \<Rightarrow> error + FormatType" where
  "detect_format content0 =
     (let content = str_strip content0
      in if (startswith content ''{'' \<or> startswith content ''['') \<and> json_loads content \<noteq> None
         then Inr JSON
         else
           and_then (any_match code_patterns [MULTILINE, IGNORECASE] content) (\<lambda>code.
             if code then Inr CODE
             else
               and_then (count_search md_patterns [MULTILINE] content) (\<lambda>md_count.
                 if 2 \<le> md_count then Inr MARKDOWN else Inr TEXT)))"

subsection \<open>The dimension scorers\<close>

definition finish :: "rat \<Rightarrow> string list \<Rightarrow> string \<Rightarrow> rat \<times> string" where
  \<comment> \<open>the \<open>return\<close> of a scorer: the rounded score, and the feedback joined or the
      scorer's mark that nothing was found\<close>
  "finish score fb clear = (py_round score 3, if fb = [] then clear else str_join ''; '' fb)"

definition required_fields :: "string list" where
  "required_fields = [''id'', ''name'', ''data'', ''value'', ''type'']"

definition score_completeness :: "string \<Rightarrow> FormatType \<Rightarrow> error + rat \<times> string" where
  "score_completeness content format_type =
     (case format_type of
        JSON \<Rightarrow>
          Inr (case json_loads content of
                 Some (JObject d) \<Rightarrow>
                   (let found = length (filter (\<lambda>f. map_of d (key f) \<noteq> None) required_fields);
                        score = of_nat found / of_nat (length required_fields);
                        missing = filter (\<lambda>f. map_of d (key f) = None) required_fields
                    in finish score
                         (if score < 1 then [''Missing common fields: '' @ repr_list (take 3 missing)] else [])
                         ''Complete'')
               | Some (JArray xs) \<Rightarrow>
                   finish (if 0 < length xs then 1 else 0)
                     (if length xs = 0 then [''Empty array''] else []) ''Complete''
               | Some _ \<Rightarrow> finish (1 / 2) [''JSON structure is minimal''] ''Complete''
               | None \<Rightarrow> finish 0 [''Invalid JSON structure''] ''Complete'')
      | MARKDOWN \<Rightarrow>
          and_then (re_search (raw ''^#{1,6}~s+'') [MULTILINE] content) (\<lambda>header.
          and_then (re_findall (raw ''~n~n'') [] content) (\<lambda>breaks.
          and_then (re_search (raw ''^[-*+]~s+'') [MULTILINE] content) (\<lambda>bullets.
          and_then (re_search (raw ''~[.*~]~(.*~)'') [] content) (\<lambda>link.
          and_then (re_search ''```'' [] content) (\<lambda>code.
            (let elements = [(''header'', header), (''paragraph'', 0 < length breaks),
                             (''list'', bullets), (''link'', link), (''code'', code)];
                 score = of_nat (truths (map snd elements)) / of_nat (length elements);
                 missing = map fst (filter (\<lambda>e. \<not> snd e) elements)
             in Inr (finish score
                  (if missing \<noteq> [] then [''Consider adding: '' @ str_join '', '' (take 3 missing)] else [])
                  ''Complete'')))))))
      | CODE \<Rightarrow>
          and_then (re_search ''def |function |func '' [] content) (\<lambda>functions.
          and_then (re_search (raw ''#|//|/~*|~*/'') [] content) (\<lambda>comments.
          and_then (re_search ''return|yield'' [] content) (\<lambda>returns.
            (let checks = [(''structure'', 5 < length (str_split content ''\<newline>'')),
                           (''functions'', functions), (''comments'', comments), (''returns'', returns)];
                 score = of_nat (truths (map snd checks)) / of_nat (length checks);
                 missing = map fst (filter (\<lambda>e. \<not> snd e) checks)
             in Inr (finish score
                  (if missing \<noteq> [] then [''Consider adding: '' @ str_join '', '' (take 3 missing)] else [])
                  ''Complete'')))))
      | TEXT \<Rightarrow>
          and_then (re_split ''[.!?]+'' content) (\<lambda>pieces.
            (let n_words = length (words content);
                 sentences = length pieces;
                 paragraphs = length (str_split content ''\<newline>\<newline>'');
                 word_score = min 1 (of_nat n_words / 100);
                 sentence_score = min 1 (of_nat sentences / 5);
                 paragraph_score = min 1 (of_nat paragraphs / 2);
                 score = (word_score + sentence_score + paragraph_score) / 3
             in Inr (finish score
                  (if n_words < 50 then [''Content seems brief, consider expanding''] else [])
                  ''Complete''))))"

definition indent_of :: "string \<Rightarrow> string option" where
  \<comment> \<open>what a line adds to the set of indentation kinds\<close>
  "indent_of line =
     (if line \<noteq> [] \<and> \<not> isspace (hd line) then None
      else if startswith line ''    '' then Some ''spaces''
      else if startswith line [CHR 0x09] then Some ''tabs''
      else None)"

definition score_format_compliance ::
  "(string \<Rightarrow> string) \<Rightarrow> string \<Rightarrow> FormatType \<Rightarrow> error + rat \<times> string" where
  \<comment> \<open>\<open>describe\<close> gives the text \<open>str(e)\<close> of the \<open>JSONDecodeError\<close> that a document
      raises; the library words it, and the model leaves it open\<close>
  "score_format_compliance describe content format_type =
     (case format_type of
        JSON \<Rightarrow>
          Inr (case json_loads content of
                 Some _ \<Rightarrow>
                   if has_sub content ''\<newline>'' \<and> \<not> startswith content ''{\<newline>''
                   then finish (max 0 (1 - 1 / 10)) [''Consider using consistent formatting'']
                          ''Format compliant''
                   else finish (max 0 1) [] ''Format compliant''
               | None \<Rightarrow>
                   finish (max 0 0) [''JSON parse error: '' @ take 50 (describe content)]
                     ''Format compliant'')
      | MARKDOWN \<Rightarrow>
          and_then (re_findall (raw ''^#{1,6}[^~s#]'') [MULTILINE] content) (\<lambda>headers.
          and_then (re_findall (raw ''~[([^~]]*)~]~(~s*~)'') [] content) (\<lambda>broken_links.
            (let code_blocks = count_sub content ''```'';
                 p1 = (headers \<noteq> []);
                 p2 = (code_blocks mod 2 \<noteq> 0);
                 p3 = (broken_links \<noteq> []);
                 score = 1 - (if p1 then 2 / 10 else 0) - (if p2 then 3 / 10 else 0)
                           - (if p3 then 1 / 10 else 0);
                 issues = (if p1 then [''Headers need space after #''] else [])
                        @ (if p2 then [''Unclosed code block''] else [])
                        @ (if p3 then [''Empty links found''] else [])
             in Inr (finish (max 0 score) issues ''Format compliant''))))
      | CODE \<Rightarrow>
          (let lines = str_split content ''\<newline>'';
               indent_types = remdups (List.map_filter indent_of lines);
               trailing = length (filter (\<lambda>l. l \<noteq> [] \<and> last l = CHR '' '') lines);
               p1 = (1 < length indent_types);
               p2 = (of_nat (length lines) * (1 / 10) < (of_nat trailing :: rat));
               score = 1 - (if p1 then 2 / 10 else 0) - (if p2 then 1 / 10 else 0);
               fb = (if p1 then [''Mixed tabs and spaces''] else [])
                  @ (if p2 then [''Trailing whitespace detected''] else [])
           in Inr (finish (max 0 score) fb ''Format compliant''))
      | TEXT \<Rightarrow>
          and_then (re_split ''[.!?]'' content) (\<lambda>sentences.
          and_then (if 1 < length sentences
                    then and_then (re_findall (raw ''[.!?]~s+[A-Z]'') [] content) (\<lambda>found.
                           Inr ((of_nat (length found) :: rat) < of_nat (length sentences) * (5 / 10)))
                    else Inr False) (\<lambda>p2.
            (let p1 = has_sub content ''  '';
                 score = 1 - (if p1 then 1 / 10 else 0) - (if p2 then 1 / 10 else 0);
                 issues = (if p1 then [''Multiple consecutive spaces''] else [])
                        @ (if p2 then [''Inconsistent sentence endings''] else [])
             in Inr (finish (max 0 score) issues ''Format compliant'')))))"

fun max_list :: "nat list \<Rightarrow> nat" where
  \<comment> \<open>\<open>max\<close> of a sequence; the program takes it of a non-empty one only\<close>
  "max_list [] = 0"
| "max_list (x # xs) = fold max xs x"

fun get_dict_depth :: "json \<Rightarrow> nat \<Rightarrow> nat" where
  "get_dict_depth (JObject d) depth =
     (if d = [] then depth
      else max_list (map (\<lambda>kv. get_dict_depth (snd kv) (depth + 1)) d))"
| "get_dict_depth _ depth = depth"

definition score_coverage :: "string \<Rightarrow> FormatType \<Rightarrow> error + rat \<times> string" where
  "score_coverage content format_type =
     (let word_count = length (words content);
          char_count = length content
      in case format_type of
           JSON \<Rightarrow>
             Inr (case json_loads content of
                    Some (JObject d) \<Rightarrow>
                      (let key_count = length d;
                           depth = get_dict_depth (JObject d) 0
                       in finish (min 1 (of_nat key_count / 10 + of_nat depth / 5) / 2) []
                            ''Good coverage'')
                  | Some (JArray xs) \<Rightarrow> finish (min 1 (of_nat (length xs) / 10)) [] ''Good coverage''
                  | Some _ \<Rightarrow> finish (1 / 2) [] ''Good coverage''
                  | None \<Rightarrow> finish 0 [] ''Good coverage'')
         | CODE \<Rightarrow>
             and_then (re_findall ''def |function |func '' [] content) (\<lambda>fs.
             and_then (re_findall ''class '' [] content) (\<lambda>cs.
             and_then (re_findall (raw ''~b(var|let|const|int|string|float)~s+~w+'') [] content) (\<lambda>vs.
               (let functions = length fs;
                    classes = length cs;
                    variables = length vs;
                    total = of_nat functions + of_nat (classes * 2) + of_nat variables / 5
                in Inr (finish (min 1 (total / 10))
                     (if functions = 0 \<and> classes = 0 then [''No functions or classes found''] else [])
                     ''Good coverage'')))))
         | MARKDOWN \<Rightarrow>
             and_then (re_findall (raw ''^#{1,6}~s+'') [MULTILINE] content) (\<lambda>ss.
             and_then (re_findall (raw ''~[.*~]~(.*~)'') [] content) (\<lambda>ls.
             and_then (re_findall (raw ''!~[.*~]~(.*~)'') [] content) (\<lambda>is.
               (let sections = length ss;
                    links = length ls;
                    images = length is;
                    code_blocks = count_sub content ''```'' div 2;
                    total = of_nat sections + of_nat links / 2 + of_nat images + of_nat code_blocks
                in Inr (finish (min 1 (total / 8)) [] ''Good coverage'')))))
         | TEXT \<Rightarrow>
             (let ws = words (str_lower content);
                  unique_words = length (remdups ws);
                  diversity = of_nat unique_words / of_nat (max 1 (length ws));
                  length_score = min 1 (of_nat word_count / 200);
                  score = (diversity + length_score) / 2
              in Inr (finish score
                   (if diversity < 3 / 10 then [''Low vocabulary diversity''] else [])
                   ''Good coverage'')))"

definition score_clarity :: "string \<Rightarrow> FormatType \<Rightarrow> error + rat \<times> string" where
  "score_clarity content format_type =
     (let lines = str_split content ''\<newline>'';
          avg_line_len = (of_nat (sum_list (map length lines)) :: rat) / of_nat (max 1 (length lines));
          p1 = (100 < avg_line_len);
          blank_lines = length (filter (\<lambda>l. str_strip l = []) lines);
          p2 = ((of_nat blank_lines :: rat) < of_nat (length lines) * (1 / 10));
          paragraphs = str_split content ''\<newline>\<newline>'';
          long_paras = length (filter (\<lambda>p. 100 < length (words p)) paragraphs);
          p3 = (0 < long_paras)
      in and_then (if format_type = CODE
                   then and_then (re_findall (raw ''^~s*(#|//|/~*|~*/)'') [MULTILINE] content) (\<lambda>cl.
                          (let comment_lines = length cl;
                               total_lines = length (filter (\<lambda>l. str_strip l \<noteq> []) lines)
                           in Inr (10 < total_lines \<and>
                                   (of_nat comment_lines :: rat) < of_nat total_lines * (1 / 10))))
                   else Inr False) (\<lambda>p4.
         and_then (re_findall (raw ''~b[A-Z]{2,}~b'') [] content) (\<lambda>abbreviations.
           (let score = 1 - (if p1 then 2 / 10 else 0) - (if p2 then 1 / 10 else 0)
                          - (if p3 then (1 / 10) * of_nat long_paras else 0)
                          - (if p4 then 2 / 10 else 0);
                fb = (if p1 then [''Long lines reduce readability''] else [])
                   @ (if p2 then [''Add more paragraph breaks''] else [])
                   @ (if p3 then [''Break up long paragraphs''] else [])
                   @ (if p4 then [''Add more code comments''] else [])
                   @ (if 10 < length abbreviations
                      then [''Many abbreviations - consider defining them''] else [])
            in Inr (finish (max 0 score) fb ''Clear and readable'')))))"

definition is_container :: "json \<Rightarrow> bool" where
  \<comment> \<open>\<open>isinstance(v, (dict, list))\<close>\<close>
  "is_container v = (case v of JObject _ \<Rightarrow> True | JArray _ \<Rightarrow> True | _ \<Rightarrow> False)"

fun count_nulls :: "json \<Rightarrow> nat" where
  "count_nulls JNull = 1"
| "count_nulls (JObject d) =
     sum_list (map (\<lambda>kv. if snd kv = JNull \<or> snd kv = JString [] \<or> snd kv = JArray [] then 1
                           else if is_container (snd kv) then count_nulls (snd kv) else 0) d)"
| "count_nulls (JArray xs) =
     sum_list (map (\<lambda>item. if item = JNull \<or> item = JString [] \<or> item = JObject [] then 1
                             else if is_container item then count_nulls item else 0) xs)"
| "count_nulls _ = 0"

definition unused_import :: "string \<Rightarrow> string \<Rightarrow> bool" where
  \<comment> \<open>\<open>imp not in content[content.find(imp) + len(imp):]\<close>\<close>
  "unused_import content imp =
     (\<not> has_sub (slice_from content (find_sub content imp + int (length imp))) imp)"

definition score_validity ::
  "(string \<Rightarrow> string) \<Rightarrow> string \<Rightarrow> FormatType \<Rightarrow> error + rat \<times> string" where
  "score_validity describe content format_type =
     (case format_type of
        JSON \<Rightarrow>
          Inr (case json_loads content of
                 Some data \<Rightarrow>
                   (let null_count = count_nulls data
                    in if 0 < null_count
                       then finish (max 0 (1 - (1 / 10) * of_nat (min null_count 5)))
                              [''Found '' @ digits_of null_count @ '' null/empty values''] ''Valid''
                       else finish (max 0 1) [] ''Valid'')
               | None \<Rightarrow>
                   finish (max 0 0) [''Invalid JSON: '' @ take 50 (describe content)] ''Valid'')
      | CODE \<Rightarrow>
          and_then (re_search (raw ''~{~s*~}'') [] content) (\<lambda>empty_block.
          and_then (re_findall (raw ''import~s+(~w+)'') [] content) (\<lambda>found.
            (let open_brackets = count_sub content ''('' + count_sub content ''['' + count_sub content ''{'';
                 close_brackets = count_sub content '')'' + count_sub content '']'' + count_sub content ''}'';
                 p1 = (open_brackets \<noteq> close_brackets);
                 imports = map hd found;
                 unused = filter (unused_import content) (take 5 imports);
                 score = 1 - (if p1 then 3 / 10 else 0) - (if empty_block then 1 / 10 else 0)
                           - (5 / 100) * of_nat (length unused);
                 issues = (if p1 then [''Mismatched brackets''] else [])
                        @ (if empty_block then [''Empty code blocks''] else [])
                        @ map (\<lambda>imp. ''Potentially unused: '' @ imp) unused
             in Inr (finish (max 0 score) issues ''Valid''))))
      | MARKDOWN \<Rightarrow>
          and_then (re_search (raw ''~]~([^)]*$'') [MULTILINE] content) (\<lambda>broken.
            (let asterisks = count_sub content ''**'';
                 p1 = (asterisks mod 2 \<noteq> 0);
                 score = 1 - (if p1 then 2 / 10 else 0) - (if broken then 2 / 10 else 0);
                 issues = (if p1 then [''Unclosed bold formatting''] else [])
                        @ (if broken then [''Broken link syntax''] else [])
             in Inr (finish (max 0 score) issues ''Valid'')))
      | TEXT \<Rightarrow>
          and_then (re_search (raw ''~b(teh|adn|taht|wiht)~b'') [] (str_lower content)) (\<lambda>typos.
            (let ws = words (str_lower content);
                 repeated = length (filter (\<lambda>i. ws ! i = ws ! (i + 1)) [0 ..< length ws - 1]);
                 p1 = (2 < repeated);
                 score = 1 - (if p1 then 1 / 10 else 0) - (if typos then 1 / 10 else 0);
                 issues = (if p1 then [''Repeated words found''] else [])
                        @ (if typos then [''Possible typos detected''] else [])
             in Inr (finish (max 0 score) issues ''Valid''))))"

subsection \<open>The aggregator and the batch runner\<close>

fun rating_scan :: "(rat \<times> string) list \<Rightarrow> rat \<Rightarrow> string" where
  "rating_scan [] score = ''Poor''"
| "rating_scan ((threshold, rating) # rest) score =
     (if threshold \<le> score then rating else rating_scan rest score)"

definition get_quality_rating :: "rat \<Rightarrow> string" where
  "get_quality_rating score = rating_scan QUALITY_RATINGS score"

type_synonym scorer = "string \<Rightarrow> FormatType \<Rightarrow> error + rat \<times> string"

definition dimensions :: "(string \<Rightarrow> string) \<Rightarrow> (string \<times> scorer) list" where
  "dimensions describe =
     [(''completeness'', score_completeness),
      (''format_compliance'', score_format_compliance describe),
      (''coverage'', score_coverage),
      (''clarity'', score_clarity),
      (''validity'', score_validity describe)]"

definition clear_marks :: "string list" where
  "clear_marks = [''Complete'', ''Format compliant'', ''Good coverage'', ''Clear and readable'', ''Valid'']"

fun score_dimensions ::
  "(string \<times> scorer) list \<Rightarrow> string \<Rightarrow> FormatType \<Rightarrow>
   (string \<times> rat) list \<times> string list \<times> rat \<Rightarrow>
   error + (string \<times> rat) list \<times> string list \<times> rat" where
  \<comment> \<open>the loop over the dimensions; the state is \<open>scores\<close>, \<open>feedback_list\<close> and \<open>weighted_sum\<close>\<close>
  "score_dimensions [] content format_type acc = Inr acc"
| "score_dimensions ((dim_name, scorer) # rest) content format_type (dim_scores, feedback_list, weighted_sum) =
     and_then (scorer content format_type) (\<lambda>(score, fb).
       case map_of DIMENSION_WEIGHTS dim_name of
         None \<Rightarrow> Inl (KeyError dim_name)
       | Some weight \<Rightarrow>
           score_dimensions rest content format_type
             (dict_set dim_name score dim_scores,
              (if fb \<noteq> [] \<and> fb \<notin> set clear_marks
               then feedback_list @ [dim_name @ '': '' @ fb] else feedback_list),
              weighted_sum + score * weight))"

definition score_submission :: "(string \<Rightarrow> string) \<Rightarrow> string \<Rightarrow> rat \<Rightarrow> error + ScoringResult" where
  "score_submission describe content threshold =
     and_then (detect_format content) (\<lambda>format_type.
     and_then (score_dimensions (dimensions describe) content format_type ([], [], 0))
       (\<lambda>(dim_scores, feedback_list, weighted_sum).
          (let weighted_score = py_round weighted_sum 3;
               quality_rating = get_quality_rating weighted_score
           in Inr \<lparr>weighted_score = weighted_score,
                    quality_rating = quality_rating,
                    scores = dim_scores,
                    feedback = (if feedback_list \<noteq> [] then feedback_list
                                else [''All dimensions satisfactory'']),
                    pass_threshold = (threshold \<le> weighted_score),
                    format_detected = format_value format_type\<rparr>)))"

fun score_batch :: "(string \<Rightarrow> string) \<Rightarrow> string list \<Rightarrow> rat \<Rightarrow> error + ScoringResult list" where
  \<comment> \<open>the list comprehension: the first submission that raises ends it\<close>
  "score_batch describe [] threshold = Inr []"
| "score_batch describe (s # submissions) threshold =
     and_then (score_submission describe s threshold) (\<lambda>r.
     and_then (score_batch describe submissions threshold) (\<lambda>rs. Inr (r # rs)))"

section \<open>Notions used in the statements\<close>

definition compiles :: "string \<Rightarrow> bool" where
  \<comment> \<open>the pattern parses: \<open>re\<close> raises nothing when it is used\<close>
  "compiles p = (case compile p of Inl _ \<Rightarrow> False | Inr _ \<Rightarrow> True)"

definition returns_unit_score :: "error + rat \<times> string \<Rightarrow> bool" where
  \<comment> \<open>a scorer returns (it raises nothing), and its score lies between 0 and 1\<close>
  "returns_unit_score r = (case r of Inl _ \<Rightarrow> False | Inr (s, fb) \<Rightarrow> 0 \<le> s \<and> s \<le> 1)"

definition tier :: "string \<Rightarrow> nat" where
  \<comment> \<open>the place of a label in the rating table: 0 is the highest tier\<close>
  "tier label = length (takeWhile (\<lambda>e. snd e \<noteq> label) QUALITY_RATINGS)"


definition is_empty_value :: "json \<Rightarrow> bool" where
  \<comment> \<open>null, the empty string, or an empty container\<close>
  "is_empty_value v = (v = JNull \<or> v = JString [] \<or> v = JArray [] \<or> v = JObject [])"

fun count_empty_fields :: "json \<Rightarrow> nat" where
  \<comment> \<open>the specification's words for the count: a recursive walk that counts the null,
      empty-string and empty-container values and goes into the other mappings and sequences\<close>
  "count_empty_fields (JObject d) =
     sum_list (map (\<lambda>kv. if is_empty_value (snd kv) then 1 else count_empty_fields (snd kv)) d)"
| "count_empty_fields (JArray xs) =
     sum_list (map (\<lambda>x. if is_empty_value x then 1 else count_empty_fields x) xs)"
| "count_empty_fields _ = 0"

definition scenario_json :: string where
  \<comment> \<open>the structured scenario of the specification\<close>
  \<open>scenario_json = ''{"id":"1","name":"Test","value":100,"type":"example","data":{}}''\<close>


definition unterminated :: error where
  \<comment> \<open>\<open>re.error: missing ), unterminated subpattern at position 4\<close>\<close>
  "unterminated = PatternError ''missing ), unterminated subpattern'' 4"

section \<open>The patterns of the program\<close>

text \<open>
  The first code-signal pattern opens a group and never closes it, so compiling it
  raises \<open>re.error\<close>; every other pattern of the program compiles.
\<close>

lemma first_code_pattern:
  "compile (raw ''^~s*(def |class |function |import |from |#include |package |func '') = Inl unterminated"
  by code_simp

lemma scorer_patterns:
  "compiles (raw ''^#{1,6}~s+'')"
  "compiles (raw ''~n~n'')"
  "compiles (raw ''^[-*+]~s+'')"
  "compiles (raw ''~[.*~]~(.*~)'')"
  "compiles ''```''"
  "compiles ''def |function |func ''"
  "compiles (raw ''#|//|/~*|~*/'')"
  "compiles ''return|yield''"
  "compiles ''[.!?]+''"
  "compiles (raw ''^#{1,6}[^~s#]'')"
  "compiles (raw ''~[([^~]]*)~]~(~s*~)'')"
  "compiles ''[.!?]''"
  "compiles (raw ''[.!?]~s+[A-Z]'')"
  "compiles ''class ''"
  "compiles (raw ''~b(var|let|const|int|string|float)~s+~w+'')"
  "compiles (raw ''!~[.*~]~(.*~)'')"
  "compiles (raw ''^~s*(#|//|/~*|~*/)'')"
  "compiles (raw ''~b[A-Z]{2,}~b'')"
  "compiles (raw ''~{~s*~}'')"
  "compiles (raw ''import~s+(~w+)'')"
  "compiles (raw ''~]~([^)]*$'')"
  "compiles (raw ''~b(teh|adn|taht|wiht)~b'')"
  by code_simp+

lemma re_search_ok: "compiles p \<Longrightarrow> re_search p fl s = Inr (search_from fl (fst (projr (compile p))) None s)"
  by (auto simp: compiles_def re_search_def split: sum.splits)

lemma re_findall_ok:
  "compiles p \<Longrightarrow> re_findall p fl s =
     Inr (map (group_texts (snd (projr (compile p)))) (find_all fl (fst (projr (compile p))) 0 None s))"
  by (auto simp: compiles_def re_findall_def split: sum.splits)

lemma re_split_ok: "compiles p \<Longrightarrow> re_split p s = Inr (split_all [] (fst (projr (compile p))) 0 None [] s)"
  by (auto simp: compiles_def re_split_def split: sum.splits)

lemma and_then_Inr: "and_then (Inr x) f = f x"
  by (simp add: and_then_def)

lemma and_then_Inl: "and_then (Inl e) f = Inl e"
  by (simp add: and_then_def)

lemma and_then_if: "and_then (if c then Inr a else Inr b) f = f (if c then a else b)"
  by (simp add: and_then_def)

lemmas re_ok = scorer_patterns re_search_ok re_findall_ok re_split_ok and_then_Inr

lemmas unfold_scorer = FormatType.case Let_def re_ok and_then_if

text \<open>
  The loop over the code patterns uses the first pattern first, so it raises on every
  text; the detector therefore returns \<open>JSON\<close> or raises, and nothing else.
\<close>

lemma code_stage_raises: "any_match code_patterns fl s = Inl unterminated"
  by (simp add: code_patterns_def re_match_def first_code_pattern and_then_def)

lemma detect_format_cases:
  "detect_format content =
     (if (startswith (str_strip content) ''{'' \<or> startswith (str_strip content) ''['') \<and>
         json_loads (str_strip content) \<noteq> None
      then Inr JSON else Inl unterminated)"
  by (simp add: detect_format_def Let_def code_stage_raises and_then_def)

section \<open>Rounding\<close>

lemma round_half_even_ge: "of_int m \<le> x \<Longrightarrow> m \<le> round_half_even x"
proof -
  assume "of_int m \<le> x"
  then have "m \<le> \<lfloor>x\<rfloor>" by (simp add: le_floor_iff)
  moreover have "\<lfloor>x\<rfloor> \<le> round_half_even x" by (simp add: round_half_even_def Let_def)
  ultimately show ?thesis by simp
qed

lemma round_half_even_le: "x \<le> of_int m \<Longrightarrow> round_half_even x \<le> m"
proof -
  assume a: "x \<le> of_int m"
  have f: "\<lfloor>x\<rfloor> \<le> m" using a by (simp add: floor_le_iff)
  show ?thesis
  proof (cases "\<lfloor>x\<rfloor> = m")
    case True
    then have "x - of_int \<lfloor>x\<rfloor> \<le> 0" using a by simp
    then show ?thesis using True by (simp add: round_half_even_def Let_def)
  next
    case False
    then have "\<lfloor>x\<rfloor> + 1 \<le> m" using f by simp
    then show ?thesis using f by (auto simp: round_half_even_def Let_def)
  qed
qed

lemma py_round_range: "0 \<le> x \<Longrightarrow> x \<le> 1 \<Longrightarrow> 0 \<le> py_round x n \<and> py_round x n \<le> 1"
proof -
  assume a: "0 \<le> x" "x \<le> 1"
  have "(0::int) \<le> round_half_even (x * 10 ^ n)"
    by (rule round_half_even_ge) (use a in simp)
  moreover have "round_half_even (x * 10 ^ n) \<le> 10 ^ n"
    by (rule round_half_even_le) (use a in \<open>simp add: mult_left_le_one_le\<close>)
  ultimately show ?thesis
    by (simp add: py_round_def divide_le_eq_1 of_int_le_iff [symmetric] del: of_int_le_iff)
qed

lemma round_half_even_int: "round_half_even (of_int m) = m"
  by (simp add: round_half_even_def)

lemma py_round_exact: "x * 10 ^ n = of_int m \<Longrightarrow> py_round x n = x"
proof -
  assume a: "x * 10 ^ n = of_int m"
  then have "py_round x n = of_int m / 10 ^ n"
    by (simp add: py_round_def round_half_even_int)
  also have "\<dots> = x" using a [symmetric] by simp
  finally show ?thesis .
qed

section \<open>The range of the scores\<close>

lemma returns_unit_finish: "0 \<le> x \<Longrightarrow> x \<le> 1 \<Longrightarrow> returns_unit_score (Inr (finish x fb c))"
  using py_round_range [of x 3] by (simp add: returns_unit_score_def finish_def)


lemma unit_ratio: "a \<le> b \<Longrightarrow> 0 \<le> (of_nat a :: rat) / of_nat b \<and> (of_nat a :: rat) / of_nat b \<le> 1"
  by (cases "b = 0") (simp_all add: divide_le_eq_1)



lemma if_nonneg: "0 \<le> x \<Longrightarrow> 0 \<le> (if b then x else (0::rat))"
  by simp

lemma finish_penalties:
  "0 \<le> a \<Longrightarrow> 0 \<le> b \<Longrightarrow> 0 \<le> c \<Longrightarrow> 0 \<le> d \<Longrightarrow>
   returns_unit_score (Inr (finish (max 0 (1 - a - b - c - d)) fb cl))"
  "0 \<le> a \<Longrightarrow> 0 \<le> b \<Longrightarrow> 0 \<le> c \<Longrightarrow>
   returns_unit_score (Inr (finish (max 0 (1 - a - b - c)) fb cl))"
  "0 \<le> a \<Longrightarrow> 0 \<le> b \<Longrightarrow>
   returns_unit_score (Inr (finish (max 0 (1 - a - b)) fb cl))"
  "0 \<le> a \<Longrightarrow> returns_unit_score (Inr (finish (max 0 (1 - a)) fb cl))"
  by (rule returns_unit_finish; simp)+

lemma format_compliance_range: "returns_unit_score (score_format_compliance describe content fmt)"
proof (cases fmt)
  case JSON
  show ?thesis
    by (cases "json_loads content")
       (simp_all add: score_format_compliance_def JSON returns_unit_finish)
next
  case MARKDOWN
  show ?thesis
    unfolding score_format_compliance_def MARKDOWN
    by (simp only: unfold_scorer) (intro finish_penalties if_nonneg; simp)
next
  case CODE
  show ?thesis
    unfolding score_format_compliance_def CODE
    by (simp only: unfold_scorer) (intro finish_penalties if_nonneg; simp)
next
  case TEXT
  show ?thesis
    unfolding score_format_compliance_def TEXT
    by (simp only: unfold_scorer) (intro finish_penalties if_nonneg; simp)
qed


lemma diversity_range:
  "0 \<le> (of_nat (length (remdups ws)) :: rat) / of_nat (max 1 (length ws)) \<and>
   (of_nat (length (remdups ws)) :: rat) / of_nat (max 1 (length ws)) \<le> 1"
  by (rule unit_ratio) (simp add: le_max_iff_disj length_remdups_leq)

lemma finish_capped:
  "0 \<le> x \<Longrightarrow> returns_unit_score (Inr (finish (min 1 x) fb cl))"
  "0 \<le> x \<Longrightarrow> returns_unit_score (Inr (finish (min 1 x / 2) fb cl))"
  by (rule returns_unit_finish; simp)+

lemma finish_mean:
  "0 \<le> a \<and> a \<le> 1 \<Longrightarrow> returns_unit_score (Inr (finish ((a + min 1 b) / 2) fb cl))"
  if "0 \<le> b" for a b :: rat
  using that by (intro returns_unit_finish) (auto simp: min_def)

lemma coverage_range: "returns_unit_score (score_coverage content fmt)"
proof (cases fmt)
  case JSON
  show ?thesis
  proof (cases "json_loads content")
    case None
    then show ?thesis by (simp add: score_coverage_def JSON returns_unit_finish)
  next
    case (Some v)
    then show ?thesis
      by (cases v) (simp_all add: score_coverage_def JSON Let_def returns_unit_finish finish_capped)
  qed
next
  case MARKDOWN
  show ?thesis
    unfolding score_coverage_def MARKDOWN
    by (simp only: unfold_scorer) (intro finish_capped; simp)
next
  case CODE
  show ?thesis
    unfolding score_coverage_def CODE
    by (simp only: unfold_scorer) (intro finish_capped; simp)
next
  case TEXT
  show ?thesis
    unfolding score_coverage_def TEXT
    by (simp only: unfold_scorer) (intro finish_mean diversity_range; simp)
qed

lemma clarity_range: "returns_unit_score (score_clarity content fmt)"
  unfolding score_clarity_def
  by (simp only: unfold_scorer) (intro finish_penalties if_nonneg; simp)

lemma validity_range: "returns_unit_score (score_validity describe content fmt)"
proof (cases fmt)
  case JSON
  show ?thesis
    by (cases "json_loads content")
       (simp_all add: score_validity_def JSON Let_def returns_unit_finish finish_penalties)
next
  case MARKDOWN
  show ?thesis
    unfolding score_validity_def MARKDOWN
    by (simp only: unfold_scorer) (intro finish_penalties if_nonneg; simp)
next
  case CODE
  show ?thesis
    unfolding score_validity_def CODE
    by (simp only: unfold_scorer) (intro finish_penalties if_nonneg; simp)
next
  case TEXT
  show ?thesis
    unfolding score_validity_def TEXT
    by (simp only: unfold_scorer) (intro finish_penalties if_nonneg; simp)
qed

lemma score_submission_result:
  assumes "detect_format c = Inr f"
    and "score_completeness c f = Inr (s1, fb1)"
    and "score_format_compliance d c f = Inr (s2, fb2)"
    and "score_coverage c f = Inr (s3, fb3)"
    and "score_clarity c f = Inr (s4, fb4)"
    and "score_validity d c f = Inr (s5, fb5)"
  shows "\<exists>fbs. score_submission d c t =
           Inr \<lparr>weighted_score = py_round (s1 * (30 / 100) + s2 * (20 / 100) + s3 * (25 / 100)
                                            + s4 * (15 / 100) + s5 * (10 / 100)) 3,
                 quality_rating = get_quality_rating
                    (py_round (s1 * (30 / 100) + s2 * (20 / 100) + s3 * (25 / 100)
                               + s4 * (15 / 100) + s5 * (10 / 100)) 3),
                 scores = [(''completeness'', s1), (''format_compliance'', s2), (''coverage'', s3),
                           (''clarity'', s4), (''validity'', s5)],
                 feedback = fbs,
                 pass_threshold = (t \<le> py_round (s1 * (30 / 100) + s2 * (20 / 100) + s3 * (25 / 100)
                                                   + s4 * (15 / 100) + s5 * (10 / 100)) 3),
                 format_detected = format_value f\<rparr>"
  by (simp add: score_submission_def dimensions_def assms and_then_Inr DIMENSION_WEIGHTS_def Let_def)

lemma returns_unit_scoreE:
  assumes "returns_unit_score r"
  obtains s fb where "r = Inr (s, fb)" "0 \<le> s" "s \<le> 1"
  using assms by (auto simp: returns_unit_score_def split: sum.splits)

lemma scenario_detected: "detect_format scenario_json = Inr JSON"
  by code_simp

lemma scenario_parsed:
  "json_loads scenario_json =
     Some (JObject [(key ''id'', JString (key ''1'')), (key ''name'', JString (key ''Test'')),
                    (key ''value'', JNumber ''100''), (key ''type'', JString (key ''example'')),
                    (key ''data'', JObject [])])"
  by code_simp

lemma scenario_completeness: "score_completeness scenario_json JSON = Inr (1, ''Complete'')"
  by code_simp




section \<open>Coverage of a mapping\<close>

lemma coverage_mapping:
  assumes "json_loads content = Some (JObject d)"
  shows "score_coverage content JSON =
           Inr (min 1 (of_nat (length d) / 10 + of_nat (get_dict_depth (JObject d) 0) / 5) / 2,
                ''Good coverage'')"
proof -
  define k where "k = length d"
  define n where "n = get_dict_depth (JObject d) 0"
  define x :: rat where "x = min 1 (of_nat k / 10 + of_nat n / 5) / 2"
  have "x * 10 ^ 3 = of_int (min 500 (50 * int k + 100 * int n))"
    by (simp add: x_def min_def)
  then have "py_round x 3 = x" by (rule py_round_exact)
  then show ?thesis
    using assms by (simp add: score_coverage_def Let_def finish_def x_def k_def n_def)
qed






text \<open>
  Claim C10. For a text that parses to a top-level mapping, the coverage score is at
  most 0.5, however many keys the mapping has and however deep it nests.
\<close>

theorem mapping_coverage_at_most_half:
  "json_loads content = Some (JObject d) \<Longrightarrow>
   \<exists>s fb. score_coverage content JSON = Inr (s, fb) \<and> s \<le> 1 / 2"
proof -
  assume a: "json_loads content = Some (JObject d)"
  have "min 1 (of_nat (length d) / 10 + of_nat (get_dict_depth (JObject d) 0) / 5) / 2 \<le> (1 / 2 :: rat)"
    by simp
  with coverage_mapping [OF a] show ?thesis by blast
qed

theorem mapping_coverage_at_most_half_witness:
  "json_loads scenario_json =
     Some (JObject [(key ''id'', JString (key ''1'')), (key ''name'', JString (key ''Test'')),
                    (key ''value'', JNumber ''100''), (key ''type'', JString (key ''example'')),
                    (key ''data'', JObject [])]) \<and>
   (\<exists>s fb. score_coverage scenario_json JSON = Inr (s, fb) \<and> s \<le> 1 / 2)"
  using mapping_coverage_at_most_half [OF scenario_parsed] scenario_parsed by simp

section \<open>Format detection\<close>

text \<open>
  Claim C3 (the code departs from it). The text \<open>def hello():\<close> followed by an
  indented \<open>pass\<close> is not structured and starts with a code keyword, and the program's
  own test expects \<open>CODE\<close>; the detector raises \<open>re.error\<close> instead.
\<close>

theorem code_signal_raises:
  "detect_format ''def hello():\<newline>    pass'' = Inl (PatternError ''missing ), unterminated subpattern'' 4)"
  by code_simp

text \<open>
  Claim C5 (the code departs from it). The text \<open>{oops\<close> starts with a brace and does
  not parse; it holds no code or markup signal, so the later heuristics would classify
  it \<open>TEXT\<close>. The detector leaves the structured stage, as claimed, and then raises
  \<open>re.error\<close> in the code-signal stage: the markup stage is never reached.
\<close>

theorem malformed_structured_raises:
  "startswith (str_strip ''{oops'') ''{'' \<and> json_loads (str_strip ''{oops'') = None \<and>
   detect_format ''{oops'' = Inl (PatternError ''missing ), unterminated subpattern'' 4)"
  by code_simp

section \<open>Validity of structured data\<close>

lemma validity_deduction:
  assumes "json_loads content = Some data"
  shows "\<exists>fb. score_validity describe content JSON =
           Inr (1 - (1 / 10) * of_nat (min (count_nulls data) 5), fb)"
proof -
  define x :: rat where "x = 1 - (1 / 10) * of_nat (min (count_nulls data) 5)"
  have "x * 10 ^ 3 = of_int (1000 - 100 * int (min (count_nulls data) 5))"
    by (simp add: x_def algebra_simps)
  then have r: "py_round x 3 = x" by (rule py_round_exact)
  have "0 \<le> x" by (simp add: x_def min_def)
  then have "max 0 x = x" by simp
  with r show ?thesis
    using assms by (auto simp: score_validity_def Let_def finish_def x_def)
qed

text \<open>
  Claim C6 (the code departs from it). The deduction is 0.1 per counted value, at most
  0.5 (\<open>validity_deduction\<close>), but \<open>count_nulls\<close> does not count every empty container:
  among the values of a mapping it counts the empty sequence and not the empty mapping,
  among the items of a sequence the empty mapping and not the empty sequence. The text
  \<open>{"a": {}}\<close> has one empty-valued field; the code counts none and scores 1.0.
\<close>

theorem empty_fields_not_counted:
  \<open>detect_format ''{"a": {}}'' = Inr JSON \<and>
   map_option count_nulls (json_loads ''{"a": {}}'') = Some 0 \<and>
   map_option count_empty_fields (json_loads ''{"a": {}}'') = Some 1 \<and>
   score_validity describe ''{"a": {}}'' JSON = Inr (1, ''Valid'')\<close>
  by code_simp

section \<open>The aggregator\<close>

text \<open>
  Claim C4, as stated, fails on the label: \<open>format_detected\<close> is not the string
  \<open>structured\<close>.
\<close>

theorem scenario_label_counterexample:
  "map_sum id format_detected (score_submission id scenario_json DEFAULT_PASS_THRESHOLD) \<noteq>
     Inr ''structured''"
  by code_simp

text \<open>
  Claim C4, amended. Scoring the scenario text yields a result whose \<open>format_detected\<close>
  is the string \<open>json\<close> (the labels of the program are \<open>json\<close>, \<open>markdown\<close>, \<open>code\<close> and
  \<open>text\<close>) and whose completeness score is 1.0.
\<close>

theorem scenario_result:
  "\<exists>r. score_submission describe scenario_json threshold = Inr r \<and>
       format_detected r = ''json'' \<and> map_of (scores r) ''completeness'' = Some 1"
proof -
  obtain s2 fb2 where s2: "score_format_compliance describe scenario_json JSON = Inr (s2, fb2)"
    using format_compliance_range by (rule returns_unit_scoreE)
  obtain s3 fb3 where s3: "score_coverage scenario_json JSON = Inr (s3, fb3)"
    using coverage_range by (rule returns_unit_scoreE)
  obtain s4 fb4 where s4: "score_clarity scenario_json JSON = Inr (s4, fb4)"
    using clarity_range by (rule returns_unit_scoreE)
  obtain s5 fb5 where s5: "score_validity describe scenario_json JSON = Inr (s5, fb5)"
    using validity_range by (rule returns_unit_scoreE)
  from score_submission_result [OF scenario_detected scenario_completeness s2 s3 s4 s5, of threshold]
  show ?thesis by (auto simp: format_value_def)
qed

text \<open>
  Claim C7 (the code departs from it). On the empty text, and on the malformed
  structured payload \<open>{"id": 1\<close>, the aggregator raises \<open>re.error\<close> and returns no result.
\<close>

theorem submission_raises:
  \<open>score_submission describe [] threshold = Inl (PatternError ''missing ), unterminated subpattern'' 4) \<and>
   score_submission describe ''{"id": 1'' threshold = Inl (PatternError ''missing ), unterminated subpattern'' 4)\<close>
  by code_simp

text \<open>
  Claim C8. A greater score never gets a lower tier: for \<open>s1 \<le> s2\<close> the rating of \<open>s1\<close>
  stands no higher in the table than the rating of \<open>s2\<close>; and the rating is the label
  of the first entry of the table whose threshold is at most the score.
\<close>

theorem rating_monotone:
  "s1 \<le> s2 \<Longrightarrow>
   tier (get_quality_rating s2) \<le> tier (get_quality_rating s1) \<and>
   get_quality_rating s1 =
     (case List.find (\<lambda>e. fst e \<le> s1) QUALITY_RATINGS of Some e \<Rightarrow> snd e | None \<Rightarrow> ''Poor'')"
  by (simp add: get_quality_rating_def QUALITY_RATINGS_def tier_def)

theorem rating_monotone_witness:
  "(55 / 100 :: rat) \<le> 95 / 100 \<and>
   get_quality_rating (55 / 100) = ''Needs Improvement'' \<and> tier ''Needs Improvement'' = 4 \<and>
   get_quality_rating (95 / 100) = ''Excellent'' \<and> tier ''Excellent'' = 0"
  using rating_monotone [of "55 / 100" "95 / 100"]
  by (simp add: get_quality_rating_def QUALITY_RATINGS_def tier_def)

section \<open>The batch runner\<close>

lemma score_batch_results:
  "score_batch describe submissions threshold = Inr rs \<longleftrightarrow>
     list_all2 (\<lambda>s r. score_submission describe s threshold = Inr r) submissions rs"
proof (induction submissions arbitrary: rs)
  case Nil
  then show ?case by auto
next
  case (Cons s submissions)
  show ?case
  proof (cases "score_submission describe s threshold")
    case (Inl e)
    then show ?thesis by (auto simp: and_then_def list_all2_Cons1)
  next
    case (Inr r)
    then show ?thesis
      using Cons.IH
      by (cases "score_batch describe submissions threshold")
         (auto simp: and_then_def list_all2_Cons1)
  qed
qed

text \<open>
  Claim C9 (the code departs from it). The batch runner maps the aggregator over the
  sequence (\<open>score_batch_results\<close>), so it returns only if every single call returns:
  on the sequence \<open>a\<close>, \<open>b\<close>, \<open>c\<close> of the specification it raises \<open>re.error\<close> at the first item.
\<close>

theorem batch_raises:
  "score_batch describe [''a'', ''b'', ''c''] threshold =
     Inl (PatternError ''missing ), unterminated subpattern'' 4)"
  by code_simp

end
